theory Spec2Isabelle
  imports Main
begin

section \<open>Values shared by the two tool handlers of server.js\<close>

text \<open>
  Binary buffers are kept abstract as byte strings.  In JavaScript any value can be
  thrown, and a promise can reject with any value.  The collaborators of the handlers
  (the two Gemini clients, \<open>fs\<close>, \<open>fetch\<close>) raise \<open>Error\<close> objects, which carry a
  message, and property access on \<open>undefined\<close> raises a \<open>TypeError\<close>, which carries
  one too.  \<open>Thrown_value\<close> is a thrown value that has no \<open>message\<close> property (a
  string, a number, a plain object); \<open>Thrown_null\<close> and \<open>Thrown_undefined\<close> are the
  two values on which reading any property raises.
\<close>

type_synonym bytes = string

datatype error =
    Error string | TypeError string
  | Thrown_value | Thrown_null | Thrown_undefined

text \<open>What a handler hands back: a \<open>content\<close> array, or \<open>undefined\<close> when the
  function body ends without a \<open>return\<close>.\<close>

datatype content_item = TextContent string | ImageContent string string

datatype tool_result = Content "content_item list" | Undefined

text \<open>The JavaScript idiom \<open>x || d\<close> on an optional string: \<open>undefined\<close> and the
  empty string are falsy.\<close>

definition truthy :: "string option \<Rightarrow> bool" where
  "truthy x = (case x of None \<Rightarrow> False | Some s \<Rightarrow> s \<noteq> [])"

definition or_default :: "string option \<Rightarrow> string \<Rightarrow> string" where
  "or_default x d = (case x of None \<Rightarrow> d | Some s \<Rightarrow> if s = [] then d else s)"

text \<open>A template literal prints an absent value as the word \<open>undefined\<close>.\<close>

definition template :: "string option \<Rightarrow> string" where
  "template x = (case x of None \<Rightarrow> ''undefined'' | Some s \<Rightarrow> s)"

text \<open>Decimal printing of the integers that appear in template literals
  (\<open>Date.now()\<close>, \<open>resp.status\<close>).\<close>

fun show_nat :: "nat \<Rightarrow> string" where
  "show_nat n =
     (if n < 10 then [''0123456789'' ! n]
      else show_nat (n div 10) @ [''0123456789'' ! (n mod 10)])"

declare show_nat.simps [simp del]

definition show_int :: "int \<Rightarrow> string" where
  "show_int i = (if i < 0 then ''-'' @ show_nat (nat (- i)) else show_nat (nat i))"

text \<open>The expression \<open>error.message\<close> of the two \<open>catch\<close> blocks (lines 88 and
  232): the message, \<open>undefined\<close> for a value without one, and a \<open>TypeError\<close> of
  its own when the value caught is \<open>null\<close> or \<open>undefined\<close>.\<close>

definition read_message :: "error \<Rightarrow> error + string option" where
  "read_message err =
     (case err of
        Error m \<Rightarrow> Inr (Some m)
      | TypeError m \<Rightarrow> Inr (Some m)
      | Thrown_value \<Rightarrow> Inr None
      | Thrown_null \<Rightarrow>
          Inl (TypeError ''Cannot read properties of null (reading 'message')'')
      | Thrown_undefined \<Rightarrow>
          Inl (TypeError ''Cannot read properties of undefined (reading 'message')''))"

subsection \<open>Responses of the remote API\<close>

text \<open>
  The objects that the handlers read and build, with the fields they touch.  A field
  keeps its JavaScript name; where that name is a keyword here or is already taken by
  another object it gets a prefix: \<open>op_done\<close> is \<open>operation.done\<close>, \<open>part_text\<close> is
  \<open>part.text\<close>, \<open>candidate_content\<close> is \<open>candidate.content\<close>, \<open>sample_video\<close> is
  \<open>sample.video\<close>, the \<open>req_\<close>, \<open>config_\<close>, \<open>image_\<close> and \<open>success_\<close> fields are
  the keys of the object literals at lines 122--150 and 208--214.  An optional field
  is \<open>None\<close> when it is \<open>undefined\<close>.
\<close>

record inline_data =
  data :: string
  mimeType :: string

record part =
  inlineData :: "inline_data option"
  part_text :: "string option"

record content =
  parts :: "part list option"

record candidate =
  candidate_content :: "content option"

record content_response =
  candidates :: "candidate list option"

record video =
  uri :: "string option"

record sample =
  sample_video :: "video option"

record video_response =
  generatedSamples :: "sample list option"
  generatedVideos :: "sample list option"

record operation =
  name :: "string option"
  op_done :: bool
  response :: "video_response option"

record image =
  imageBytes :: string
  image_mimeType :: string

record video_config =
  config_aspectRatio :: string

record video_request =
  req_model :: string
  req_prompt :: string
  req_image :: "image option"
  req_config :: video_config

record http_response =
  ok :: bool
  status :: int
  statusText :: string
  arrayBuffer :: "error + bytes"

text \<open>The object that the success branch of generateVideo serialises.\<close>

record success =
  success_status :: string
  success_file :: string
  size_mb :: string
  success_model :: string
  success_aspectRatio :: string

datatype js_value = ResponseValue "video_response option" | SuccessValue success

subsection \<open>The world outside the handlers\<close>

text \<open>
  Everything a handler reaches outside its own body is a field of the environment:
  the process configuration, the two remote clients, the clock, the file system, the
  HTTP client and the library functions of Node (\<open>path.extname\<close>, \<open>path.resolve\<close>,
  base64 coding, \<open>JSON.stringify\<close>).  The \<open>k\<close>-th call of \<open>Date.now()\<close> within one
  handler call reads \<open>now k\<close>, and the \<open>k\<close>-th poll of an operation is answered by
  \<open>getVideosOperation k\<close>; both count from 0.  \<open>writeFileSync\<close> answers \<open>None\<close>
  when it returns and the exception when it raises; what a raising write has left on
  the disk (nothing, an empty file, a truncated one) is not part of the model.
\<close>

record env =
  GEMINI_API_KEY :: "string option"
  generateContent :: "string \<Rightarrow> error + content_response"
  generateVideos :: "video_request \<Rightarrow> error + operation"
  getVideosOperation :: "nat \<Rightarrow> operation \<Rightarrow> error + operation"
  now :: "nat \<Rightarrow> int"
  existsSync :: "string \<Rightarrow> bool"
  readFileSync :: "string \<Rightarrow> error + bytes"
  writeFileSync :: "string \<Rightarrow> bytes \<Rightarrow> error option"
  fetch :: "string \<Rightarrow> error + http_response"
  extname :: "string \<Rightarrow> string"
  path_resolve :: "string \<Rightarrow> string"
  toBase64 :: "bytes \<Rightarrow> string"
  fromBase64 :: "string \<Rightarrow> bytes"
  JSON_stringify :: "js_value \<Rightarrow> string"

text \<open>
  The effects of a call, in the order in which they happen.  Every effect (a remote
  request, a sleep, a download, a file read, a file write) is recorded when it is
  issued, whether it then returns or raises.  Diagnostic lines on stderr
  (\<open>console.error\<close>) are left out: nothing in the handlers reads them back.
\<close>

datatype event =
    GenerateContent string
  | GenerateVideos video_request
  | Sleep int
  | GetVideosOperation operation
  | Fetch string
  | ReadFile string
  | WriteFile string bytes

fun is_write :: "event \<Rightarrow> bool" where
  "is_write (WriteFile f b) = True"
| "is_write e = False"

fun is_poll :: "event \<Rightarrow> bool" where
  "is_poll (GetVideosOperation operation) = True"
| "is_poll e = False"

fun is_sleep :: "event \<Rightarrow> bool" where
  "is_sleep (Sleep d) = True"
| "is_sleep e = False"

fun is_read :: "event \<Rightarrow> bool" where
  "is_read (ReadFile p) = True"
| "is_read e = False"

section \<open>The generateImage handler\<close>

text \<open>
  A handler has several \<open>return\<close> statements that all hand back a \<open>content\<close>
  array.  The model keeps, beside the value returned, which of them was executed:
  line 67 (\<open>Image_saved\<close>), line 76 (\<open>Text_only\<close>), the end of the \<open>try\<close> block
  reached without a \<open>return\<close> (\<open>No_return\<close>), line 164 (\<open>Timed_out\<close>), line 192
  (\<open>Download_failed\<close>), line 205 (\<open>Video_saved\<close>), line 220 (\<open>No_video\<close>) and the
  \<open>catch\<close> blocks at lines 85 and 229 (\<open>Caught\<close>).
\<close>

datatype exit =
    Image_saved | Text_only | No_return
  | Timed_out | Download_failed | Video_saved | No_video
  | Caught

definition text_result :: "string \<Rightarrow> tool_result" where
  "text_result s = Content [TextContent s]"

text \<open>Lines 83--91 and 227--235: the \<open>catch\<close> block, which returns a text made of a
  prefix and \<open>error.message\<close>.  Reading the message is the one step of the block
  that can raise, and what it raises leaves the handler.\<close>

definition catch_block :: "string \<Rightarrow> error \<Rightarrow> error + exit \<times> tool_result" where
  "catch_block prefix err =
     (case read_message err of
        Inl err' \<Rightarrow> Inl err'
      | Inr m \<Rightarrow> Inr (Caught, text_result (prefix @ template m)))"

text \<open>Lines 49--59: the scan over the parts of the first candidate.  The two
  variables \<open>imageResult\<close> and \<open>textResult\<close> start as \<open>null\<close> and are overwritten
  by every part that qualifies.\<close>

fun scan_parts ::
  "part list \<Rightarrow> inline_data option \<times> string option \<Rightarrow> inline_data option \<times> string option"
where
  "scan_parts [] (imageResult, textResult) = (imageResult, textResult)"
| "scan_parts (p # ps) (imageResult, textResult) =
     (case inlineData p of
        Some d \<Rightarrow> scan_parts ps (Some d, textResult)
      | None \<Rightarrow>
          if truthy (part_text p) then scan_parts ps (imageResult, part_text p)
          else scan_parts ps (imageResult, textResult))"

text \<open>Line 49: \<open>result.response.candidates[0].content.parts\<close>, with the
  \<open>TypeError\<close> of each access that meets \<open>undefined\<close>, and the one of \<open>for ... of\<close>
  over a value that is not iterable.\<close>

definition response_parts :: "content_response \<Rightarrow> error + part list" where
  "response_parts r =
     (case candidates r of
        None \<Rightarrow> Inl (TypeError ''Cannot read properties of undefined (reading '0')'')
      | Some [] \<Rightarrow> Inl (TypeError ''Cannot read properties of undefined (reading 'content')'')
      | Some (c # cs) \<Rightarrow>
          (case candidate_content c of
             None \<Rightarrow> Inl (TypeError ''Cannot read properties of undefined (reading 'parts')'')
           | Some ct \<Rightarrow>
               (case parts ct of
                  None \<Rightarrow> Inl (TypeError ''parts is not iterable'')
                | Some ps \<Rightarrow> Inr ps)))"

text \<open>Lines 61--82: what the handler does with the two scanned results.\<close>

definition image_outcome ::
  "env \<Rightarrow> string \<Rightarrow> inline_data option \<times> string option \<Rightarrow> event list
     \<Rightarrow> (error + exit \<times> tool_result) \<times> event list"
where
  "image_outcome e outputFormat res tr =
     (case fst res of
        Some imageResult \<Rightarrow>
          (let imageData = data imageResult;
               filename = ''gemini-image-'' @ show_int (now e 0) @ ''.'' @ outputFormat;
               buffer = fromBase64 e imageData
           in case writeFileSync e filename buffer of
                Some err \<Rightarrow> (Inl err, tr @ [WriteFile filename buffer])
              | None \<Rightarrow>
                  (Inr (Image_saved,
                        Content [ImageContent imageData (''image/'' @ outputFormat)]),
                   tr @ [WriteFile filename buffer]))
      | None \<Rightarrow>
          (case snd res of
             Some textResult \<Rightarrow>
               if textResult \<noteq> [] then (Inr (Text_only, text_result textResult), tr)
               else (Inr (No_return, Undefined), tr)
           | None \<Rightarrow> (Inr (No_return, Undefined), tr)))"

text \<open>Lines 38--82: the body of the \<open>try\<close> block.\<close>

definition generateImage_try ::
  "env \<Rightarrow> string \<Rightarrow> string \<Rightarrow> string \<Rightarrow> (error + exit \<times> tool_result) \<times> event list"
where
  "generateImage_try e prompt aspectRatio outputFormat =
     (case generateContent e prompt of
        Inl err \<Rightarrow> (Inl err, [GenerateContent prompt])
      | Inr result \<Rightarrow>
          (case response_parts result of
             Inl err \<Rightarrow> (Inl err, [GenerateContent prompt])
           | Inr ps \<Rightarrow>
               image_outcome e outputFormat (scan_parts ps (None, None))
                 [GenerateContent prompt]))"

text \<open>Lines 33--92: the handler.  \<open>Inl\<close> in the result is an exception that
  leaves the handler.\<close>

definition generateImage ::
  "env \<Rightarrow> string \<Rightarrow> string option \<Rightarrow> string option
     \<Rightarrow> (error + exit \<times> tool_result) \<times> event list"
where
  "generateImage e prompt_param aspectRatio_param outputFormat_param =
     (let prompt = or_default (Some prompt_param) ''Default image prompt'';
          aspectRatio = or_default aspectRatio_param ''1:1'';
          outputFormat = or_default outputFormat_param ''png''
      in case generateImage_try e prompt aspectRatio outputFormat of
           (Inr r, tr) \<Rightarrow> (Inr r, tr)
         | (Inl err, tr) \<Rightarrow> (catch_block ''Error generating image: '' err, tr))"

section \<open>The generateVideo handler\<close>

definition maxWait :: int where
  "maxWait = 5 * 60 * 1000"

definition pollInterval :: int where
  "pollInterval = 10 * 1000"

text \<open>Lines 132--133: the MIME type of the seed image, from the extension that
  \<open>path.extname\<close> found.  \<open>toLowerCase\<close> is written for the ASCII letters; no
  character outside ASCII has a letter of \<open>.jpg\<close> or \<open>.jpeg\<close> as its lower case.\<close>

definition lower_char :: "char \<Rightarrow> char" where
  "lower_char c =
     (let n = (of_char c :: nat) in if 65 \<le> n \<and> n \<le> 90 then char_of (n + 32) else c)"

definition toLowerCase :: "string \<Rightarrow> string" where
  "toLowerCase s = map lower_char s"

definition seed_mimeType :: "string \<Rightarrow> string" where
  "seed_mimeType extension =
     (let ext = toLowerCase extension
      in if ext = ''.jpg'' \<or> ext = ''.jpeg'' then ''image/jpeg'' else ''image/png'')"

text \<open>Lines 122--152: build the request and submit it.  The result is the exception
  or the first snapshot of the operation, with the events so far.  The condition of
  line 128 holds for a path that is present, not the empty string, and names an
  existing file.\<close>

definition submit ::
  "env \<Rightarrow> string \<Rightarrow> string \<Rightarrow> string \<Rightarrow> string option
     \<Rightarrow> (error + operation) \<times> event list"
where
  "submit e prompt aspectRatio modelId imagePath =
     (let config = \<lparr>config_aspectRatio = aspectRatio\<rparr>;
          text_request = \<lparr>req_model = modelId, req_prompt = prompt,
                          req_image = None, req_config = config\<rparr>;
          text_to_video = (generateVideos e text_request, [GenerateVideos text_request])
      in case imagePath of
           None \<Rightarrow> text_to_video
         | Some p \<Rightarrow>
             if p \<noteq> [] \<and> existsSync e p then
               (case readFileSync e p of
                  Inl err \<Rightarrow> (Inl err, [ReadFile p])
                | Inr imageBuffer \<Rightarrow>
                    (let imageBase64 = toBase64 e imageBuffer;
                         ext = extname e p;
                         mimeType = seed_mimeType ext;
                         request = \<lparr>req_model = modelId, req_prompt = prompt,
                                    req_image = Some \<lparr>imageBytes = imageBase64,
                                                      image_mimeType = mimeType\<rparr>,
                                    req_config = config\<rparr>
                     in (generateVideos e request, [ReadFile p, GenerateVideos request])))
             else text_to_video)"

text \<open>Lines 161--174: the polling loop.  \<open>i\<close> counts the iterations begun so far,
  which is also the number of polls made and of clock readings taken inside the loop
  (the reading of \<open>startTime\<close> is reading 0).  The loop ends in one of three ways:
  the operation is done, the handler returns the time-out text, or the poll raises.
  A clock that never passes the budget together with an operation that never
  finishes keeps the loop running for ever: the value is then \<open>None\<close>.\<close>

datatype poll_exit = Completed operation | Returned tool_result | Raised error

partial_function (option) poll_loop ::
  "env \<Rightarrow> int \<Rightarrow> nat \<Rightarrow> operation \<Rightarrow> event list \<Rightarrow> (poll_exit \<times> nat \<times> event list) option"
where
  "poll_loop e startTime i operation tr =
     (if op_done operation then Some (Completed operation, i, tr)
      else
        let elapsed = now e (Suc i) - startTime in
        if elapsed > maxWait then
          Some (Returned (text_result
                  (''Video generation timed out after 5 minutes. Operation: '' @
                   template (name operation))), i, tr)
        else
          (case getVideosOperation e i operation of
             Inl err \<Rightarrow>
               Some (Raised err, Suc i, tr @ [Sleep pollInterval, GetVideosOperation operation])
           | Inr operation' \<Rightarrow>
               poll_loop e startTime (Suc i) operation'
                 (tr @ [Sleep pollInterval, GetVideosOperation operation])))"

declare poll_loop.simps [code]

text \<open>Line 179: \<open>operation.response?.generatedSamples ||
  operation.response?.generatedVideos || []\<close>.  An array is truthy in JavaScript,
  also the empty one; only an absent field lets \<open>||\<close> move on.\<close>

definition select_samples :: "operation \<Rightarrow> sample list" where
  "select_samples operation =
     (case response operation of
        None \<Rightarrow> []
      | Some r \<Rightarrow>
          (case generatedSamples r of
             Some samples \<Rightarrow> samples
           | None \<Rightarrow> (case generatedVideos r of Some samples \<Rightarrow> samples | None \<Rightarrow> [])))"

text \<open>Line 182: \<open>sample.video?.uri\<close>.\<close>

definition sample_uri :: "sample \<Rightarrow> string option" where
  "sample_uri s = (case sample_video s of None \<Rightarrow> None | Some v \<Rightarrow> uri v)"

text \<open>Lines 203 and 211: \<open>(videoBuffer.length / 1024 / 1024).toFixed(1)\<close>.  The
  quotient by \<open>2^20\<close> is exact in a double, and \<open>toFixed\<close> rounds the tenths to the
  nearest, the larger on a tie.\<close>

definition mb_toFixed1 :: "nat \<Rightarrow> string" where
  "mb_toFixed1 len =
     (let tenths = (20 * len + 1048576) div 2097152
      in show_nat (tenths div 10) @ ''.'' @ show_nat (tenths mod 10))"

text \<open>Lines 186--216: download the video and store it.  \<open>k\<close> is the index of the
  next clock reading.\<close>

definition download ::
  "env \<Rightarrow> string \<Rightarrow> string \<Rightarrow> string \<Rightarrow> nat \<Rightarrow> event list
     \<Rightarrow> (error + exit \<times> tool_result) \<times> event list"
where
  "download e modelId aspectRatio videoUri k tr =
     (let separator = (if CHR ''?'' \<in> set videoUri then ''&'' else ''?'');
          downloadUrl = videoUri @ separator @ ''key='' @ template (GEMINI_API_KEY e)
      in case fetch e downloadUrl of
           Inl err \<Rightarrow> (Inl err, tr @ [Fetch downloadUrl])
         | Inr resp \<Rightarrow>
             if \<not> ok resp then
               (Inr (Download_failed,
                     text_result (''Failed to download video: '' @ show_int (status resp) @
                                  '' '' @ statusText resp)),
                tr @ [Fetch downloadUrl])
             else
               (case arrayBuffer resp of
                  Inl err \<Rightarrow> (Inl err, tr @ [Fetch downloadUrl])
                | Inr videoBuffer \<Rightarrow>
                    (let filename = ''gemini-video-'' @ show_int (now e k) @ ''.mp4''
                     in case writeFileSync e filename videoBuffer of
                          Some err \<Rightarrow>
                            (Inl err, tr @ [Fetch downloadUrl, WriteFile filename videoBuffer])
                        | None \<Rightarrow>
                            (Inr (Video_saved,
                                  text_result (JSON_stringify e (SuccessValue
                                    \<lparr>success_status = ''success'',
                                     success_file = path_resolve e filename,
                                     size_mb = mb_toFixed1 (length videoBuffer),
                                     success_model = modelId,
                                     success_aspectRatio = aspectRatio\<rparr>))),
                             tr @ [Fetch downloadUrl, WriteFile filename videoBuffer]))))"

text \<open>Lines 176--225: what follows the loop once the operation is done.\<close>

definition extract_video ::
  "env \<Rightarrow> string \<Rightarrow> string \<Rightarrow> operation \<Rightarrow> nat \<Rightarrow> event list
     \<Rightarrow> (error + exit \<times> tool_result) \<times> event list"
where
  "extract_video e modelId aspectRatio operation k tr =
     (let samples = select_samples operation;
          no_video =
            (Inr (No_video, text_result
               (''Video generation completed but no video was returned. Response: '' @
                JSON_stringify e (ResponseValue (response operation)))), tr)
      in case samples of
           [] \<Rightarrow> no_video
         | sample # rest \<Rightarrow>
             (case sample_uri sample of
                None \<Rightarrow> no_video
              | Some videoUri \<Rightarrow>
                  if videoUri \<noteq> [] then download e modelId aspectRatio videoUri k tr
                  else no_video))"

text \<open>Lines 117--226: the body of the \<open>try\<close> block.\<close>

definition generateVideo_try ::
  "env \<Rightarrow> string \<Rightarrow> string \<Rightarrow> string \<Rightarrow> string option
     \<Rightarrow> ((error + exit \<times> tool_result) \<times> event list) option"
where
  "generateVideo_try e prompt aspectRatio modelId imagePath =
     (case submit e prompt aspectRatio modelId imagePath of
        (Inl err, tr) \<Rightarrow> Some (Inl err, tr)
      | (Inr operation, tr) \<Rightarrow>
          (let startTime = now e 0
           in case poll_loop e startTime 0 operation tr of
                None \<Rightarrow> None
              | Some (Raised err, i, tr') \<Rightarrow> Some (Inl err, tr')
              | Some (Returned r, i, tr') \<Rightarrow> Some (Inr (Timed_out, r), tr')
              | Some (Completed operation', i, tr') \<Rightarrow>
                  Some (extract_video e modelId aspectRatio operation' (Suc i) tr')))"

text \<open>Lines 112--236: the handler.  \<open>None\<close> is a call that never returns; \<open>Inl\<close>
  in the result is an exception that leaves the handler.\<close>

definition generateVideo ::
  "env \<Rightarrow> string \<Rightarrow> string option \<Rightarrow> string option \<Rightarrow> string option
     \<Rightarrow> ((error + exit \<times> tool_result) \<times> event list) option"
where
  "generateVideo e prompt_param aspectRatio_param model_param imagePath_param =
     (let prompt = prompt_param;
          aspectRatio = or_default aspectRatio_param ''9:16'';
          modelId = or_default model_param ''veo-3.0-generate-001''
      in case generateVideo_try e prompt aspectRatio modelId imagePath_param of
           None \<Rightarrow> None
         | Some (Inr r, tr) \<Rightarrow> Some (Inr r, tr)
         | Some (Inl err, tr) \<Rightarrow> Some (catch_block ''Error generating video: '' err, tr))"

section \<open>Runs of the polling loop\<close>

text \<open>
  The snapshot that the handler holds after \<open>k\<close> polls, when neither the \<open>done\<close>
  flag nor the clock stops the loop earlier: snapshot 0 is the operation that the
  submission returned, and each poll is asked about the snapshot before it.
\<close>

fun snapshot :: "env \<Rightarrow> operation \<Rightarrow> nat \<Rightarrow> error + operation" where
  "snapshot e operation 0 = Inr operation"
| "snapshot e operation (Suc k) =
     (case snapshot e operation k of
        Inl err \<Rightarrow> Inl err
      | Inr operation' \<Rightarrow> getVideosOperation e k operation')"

definition pending :: "env \<Rightarrow> operation \<Rightarrow> nat \<Rightarrow> bool" where
  "pending e operation j =
     (case snapshot e operation j of
        Inl err \<Rightarrow> False
      | Inr operation' \<Rightarrow> \<not> op_done operation')"

definition finished :: "env \<Rightarrow> operation \<Rightarrow> nat \<Rightarrow> bool" where
  "finished e operation j =
     (case snapshot e operation j of
        Inl err \<Rightarrow> False
      | Inr operation' \<Rightarrow> op_done operation')"

text \<open>The check of line 163 in iteration \<open>j\<close> (counted from 0) lets the loop go on.\<close>

definition within_budget :: "env \<Rightarrow> nat \<Rightarrow> bool" where
  "within_budget e j = (\<not> (now e (Suc j) - now e 0 > maxWait))"

text \<open>The events of the first \<open>k\<close> iterations: a sleep, then a poll.\<close>

fun poll_events :: "env \<Rightarrow> operation \<Rightarrow> nat \<Rightarrow> event list" where
  "poll_events e operation 0 = []"
| "poll_events e operation (Suc k) =
     poll_events e operation k @
     (case snapshot e operation k of
        Inl err \<Rightarrow> []
      | Inr operation' \<Rightarrow> [Sleep pollInterval, GetVideosOperation operation'])"

section \<open>What a call leaves behind\<close>

text \<open>The number of files a call has written, and whether it ended at one of the two
  \<open>return\<close> statements that follow a \<open>fs.writeFileSync\<close> (lines 67 and 205).\<close>

definition writes :: "event list \<Rightarrow> nat" where
  "writes tr = length (filter is_write tr)"

definition polls :: "event list \<Rightarrow> nat" where
  "polls tr = length (filter is_poll tr)"

definition sleeps :: "event list \<Rightarrow> nat" where
  "sleeps tr = length (filter is_sleep tr)"



definition reads :: "event list \<Rightarrow> nat" where
  "reads tr = length (filter is_read tr)"



section \<open>Case-insensitive comparison\<close>

text \<open>
  What it means for an extension to be \<open>.jpg\<close> or \<open>.jpeg\<close> when upper and lower
  case are not told apart, said without \<open>toLowerCase\<close>: the spellings of a
  lower-case word are the words that have, at every position, the character itself
  or, for a letter, its capital.
\<close>

definition is_upper :: "char \<Rightarrow> bool" where
  "is_upper c = (65 \<le> (of_char c :: nat) \<and> (of_char c :: nat) \<le> 90)"

definition is_lower :: "char \<Rightarrow> bool" where
  "is_lower c = (97 \<le> (of_char c :: nat) \<and> (of_char c :: nat) \<le> 122)"

definition upper_char :: "char \<Rightarrow> char" where
  "upper_char c = char_of ((of_char c :: nat) - 32)"

fun case_variants :: "string \<Rightarrow> string list" where
  "case_variants [] = [[]]"
| "case_variants (c # cs) =
     (if is_lower c
      then map ((#) c) (case_variants cs) @ map ((#) (upper_char c)) (case_variants cs)
      else map ((#) c) (case_variants cs))"

section \<open>Example environments\<close>

text \<open>A stand-in for \<open>JSON.stringify\<close> on the two values the handler prints.\<close>

definition stringify :: "js_value \<Rightarrow> string" where
  "stringify v =
     (case v of
        ResponseValue None \<Rightarrow> ''undefined''
      | ResponseValue (Some r) \<Rightarrow> ''{...}''
      | SuccessValue s \<Rightarrow>
          ''{status:'' @ success_status s @ '',file:'' @ success_file s @
          '',size_mb:'' @ size_mb s @ '',model:'' @ success_model s @
          '',aspectRatio:'' @ success_aspectRatio s @ ''}'')"

text \<open>A world in which the image model is unreachable, a submitted video operation
  stays unfinished for ever, the clock stands still, no file exists and every write
  succeeds.  The other examples change single fields of it.\<close>

definition base_env :: env where
  "base_env =
     \<lparr>GEMINI_API_KEY = Some ''secret'',
      generateContent = (\<lambda>prompt. Inl (Error ''fetch failed'')),
      generateVideos =
        (\<lambda>request. Inr \<lparr>name = Some ''operations/veo-1'', op_done = False, response = None\<rparr>),
      getVideosOperation = (\<lambda>k operation. Inr operation),
      now = (\<lambda>k. 0),
      existsSync = (\<lambda>p. False),
      readFileSync = (\<lambda>p. Inl (Error ''ENOENT: no such file or directory'')),
      writeFileSync = (\<lambda>filename buffer. None),
      fetch = (\<lambda>url. Inl (Error ''fetch failed'')),
      extname = (\<lambda>p. []),
      path_resolve = (\<lambda>filename. ''/srv/'' @ filename),
      toBase64 = (\<lambda>buffer. buffer),
      fromBase64 = (\<lambda>s. s),
      JSON_stringify = stringify\<rparr>"

text \<open>The operation that the submission answers in that world.\<close>

definition submitted :: operation where
  "submitted = \<lparr>name = Some ''operations/veo-1'', op_done = False, response = None\<rparr>"

text \<open>A clock that reads the same millisecond for \<open>startTime\<close> and for the first
  check, and moves on by \<open>step\<close> milliseconds in every round of the loop.\<close>

definition ticking :: "int \<Rightarrow> nat \<Rightarrow> int" where
  "ticking step k = (case k of 0 \<Rightarrow> 5000 | Suc j \<Rightarrow> 5000 + step * int j)"

definition never_done_env :: "int \<Rightarrow> env" where
  "never_done_env step = base_env\<lparr>now := ticking step\<rparr>"

text \<open>The remote job finishes between poll \<open>n\<close> and poll \<open>n + 1\<close>: the first \<open>n\<close>
  polls answer \<open>done = false\<close>, every later one answers \<open>done = true\<close> with one
  generated video.\<close>

definition one_video :: video_response where
  "one_video =
     \<lparr>generatedSamples = None,
      generatedVideos = Some [\<lparr>sample_video = Some \<lparr>uri = Some ''https://x/y''\<rparr>\<rparr>]\<rparr>"

definition done_after_env :: "nat \<Rightarrow> int \<Rightarrow> env" where
  "done_after_env n step =
     base_env
       \<lparr>getVideosOperation :=
          (\<lambda>k operation. Inr (if n \<le> k
             then operation\<lparr>op_done := True, response := Some one_video\<rparr>
             else operation)),
        now := ticking step,
        fetch := (\<lambda>url. Inr \<lparr>ok = True, status = 200, statusText = ''OK'',
                               arrayBuffer = Inr ''VIDEO''\<rparr>)\<rparr>"

text \<open>The submission itself answers a finished operation whose response has both
  fields: an empty \<open>generatedSamples\<close> and one video in \<open>generatedVideos\<close>.\<close>

definition both_fields :: video_response where
  "both_fields =
     \<lparr>generatedSamples = Some [],
      generatedVideos = Some [\<lparr>sample_video = Some \<lparr>uri = Some ''https://x/y''\<rparr>\<rparr>]\<rparr>"

definition both_fields_env :: env where
  "both_fields_env =
     base_env
       \<lparr>generateVideos :=
          (\<lambda>request. Inr \<lparr>name = Some ''operations/veo-1'', op_done = True,
                            response = Some both_fields\<rparr>),
        fetch := (\<lambda>url. Inr \<lparr>ok = True, status = 200, statusText = ''OK'',
                               arrayBuffer = Inr ''VIDEO''\<rparr>)\<rparr>"


text \<open>A seed image \<open>/tmp/cat.JPG\<close> exists.\<close>

definition seed_env :: env where
  "seed_env =
     base_env
       \<lparr>existsSync := (\<lambda>p. p = ''/tmp/cat.JPG''),
        readFileSync := (\<lambda>p. if p = ''/tmp/cat.JPG'' then Inr ''JFIF''
                               else Inl (Error ''ENOENT: no such file or directory'')),
        extname := (\<lambda>p. if p = ''/tmp/cat.JPG'' then ''.JPG'' else [])\<rparr>"

text \<open>The image model answers four parts: text, image, text, image.\<close>

definition four_parts :: "part list" where
  "four_parts =
     [\<lparr>inlineData = None, part_text = Some ''a''\<rparr>,
      \<lparr>inlineData = Some \<lparr>data = ''WA=='', mimeType = ''image/webp''\<rparr>, part_text = None\<rparr>,
      \<lparr>inlineData = None, part_text = Some ''b''\<rparr>,
      \<lparr>inlineData = Some \<lparr>data = ''WQ=='', mimeType = ''image/webp''\<rparr>, part_text = None\<rparr>]"

definition image_env :: env where
  "image_env =
     base_env
       \<lparr>generateContent :=
          (\<lambda>prompt. Inr \<lparr>candidates =
             Some [\<lparr>candidate_content = Some \<lparr>parts = Some four_parts\<rparr>\<rparr>]\<rparr>),
        now := (\<lambda>k. 1700000000000)\<rparr>"




text \<open>The job finishes at the third poll, and the file \<open>/tmp/cat.JPG\<close> exists.\<close>

definition seeded_env :: env where
  "seeded_env =
     (done_after_env 2 10000)
       \<lparr>existsSync := (\<lambda>p. p = ''/tmp/cat.JPG''),
        readFileSync := (\<lambda>p. if p = ''/tmp/cat.JPG'' then Inr ''JFIF''
                               else Inl (Error ''ENOENT: no such file or directory'')),
        extname := (\<lambda>p. if p = ''/tmp/cat.JPG'' then ''.JPG'' else [])\<rparr>"


section \<open>The part scan\<close>

lemma scan_parts_image:
  "fst (scan_parts ps (i, t)) =
     (case filter (\<lambda>p. inlineData p \<noteq> None) ps of
        [] \<Rightarrow> i
      | q # qs \<Rightarrow> inlineData (last (q # qs)))"
proof (induction ps arbitrary: i t)
  case Nil
  show ?case by simp
next
  case (Cons p ps)
  show ?case
  proof (cases "inlineData p")
    case None
    then show ?thesis using Cons.IH by simp
  next
    case (Some d)
    then show ?thesis using Cons.IH [of "Some d" t]
      by (simp split: list.splits)
  qed
qed

text \<open>
  C2.  Whenever some part of the sequence carries inline binary data, the scan of
  generateImage ends with \<open>imageResult\<close> holding the inline data of the last such
  part, whatever text parts stand between, before or after the binary ones.
\<close>

theorem scan_parts_last_binary:
  "\<exists>p \<in> set ps. inlineData p \<noteq> None \<Longrightarrow>
     fst (scan_parts ps (None, None)) =
       inlineData (last (filter (\<lambda>p. inlineData p \<noteq> None) ps))"
  by (auto simp: scan_parts_image filter_empty_conv split: list.splits)

text \<open>The example of the specification: text, image, text, image.\<close>

theorem scan_parts_last_binary_witness:
  "(\<exists>p \<in> set four_parts. inlineData p \<noteq> None) \<and>
   fst (scan_parts four_parts (None, None)) =
     Some \<lparr>data = ''WQ=='', mimeType = ''image/webp''\<rparr>"
  using scan_parts_last_binary [of four_parts] by (simp add: four_parts_def)

section \<open>The polling loop\<close>

text \<open>While every snapshot is unfinished and every check of the clock passes, the
  loop goes round: \<open>k\<close> rounds bring it to snapshot \<open>k\<close>, with a sleep and a poll
  recorded for each.\<close>

lemma poll_loop_pending:
  assumes "\<forall>j<k. pending e op0 j \<and> within_budget e j"
    and "snapshot e op0 k = Inr opk"
  shows "poll_loop e (now e 0) 0 op0 tr = poll_loop e (now e 0) k opk (tr @ poll_events e op0 k)"
  using assms
proof (induction k arbitrary: opk)
  case 0
  then show ?case by simp
next
  case (Suc k)
  from Suc.prems(1) have pk: "pending e op0 k" and bk: "within_budget e k" by auto
  from pk obtain o' where o': "snapshot e op0 k = Inr o'" and nd: "\<not> op_done o'"
    by (auto simp: pending_def split: sum.splits)
  from Suc.prems(2) o' have poll: "getVideosOperation e k o' = Inr opk" by simp
  from Suc.prems(1) have "\<forall>j<k. pending e op0 j \<and> within_budget e j" by simp
  then have "poll_loop e (now e 0) 0 op0 tr = poll_loop e (now e 0) k o' (tr @ poll_events e op0 k)"
    using o' by (rule Suc.IH)
  also have "\<dots> = poll_loop e (now e 0) (Suc k) opk (tr @ poll_events e op0 (Suc k))"
    using nd bk poll o'
    by (subst poll_loop.simps) (simp add: within_budget_def)
  finally show ?case .
qed

lemma poll_events_polls:
  "\<forall>j<k. pending e op0 j \<Longrightarrow> polls (poll_events e op0 k) = k"
  by (induction k) (auto simp: pending_def polls_def split: sum.splits)

lemma poll_events_sleeps:
  "\<forall>j<k. pending e op0 j \<Longrightarrow> sleeps (poll_events e op0 k) = k"
  by (induction k) (auto simp: pending_def sleeps_def split: sum.splits)

text \<open>
  C4, as amended.  Let the operation returned by the submission be unfinished, let the
  first \<open>n\<close> polls answer \<open>done = false\<close> and poll \<open>n + 1\<close> answer \<open>done = true\<close>,
  and let the elapsed time read at the start of each of the first \<open>n + 1\<close> rounds be
  within the five-minute budget.  Then the handler makes exactly \<open>n + 1\<close> calls of
  \<open>getVideosOperation\<close> and leaves the loop with the finished snapshot.
\<close>

theorem poll_loop_exact_polls:
  assumes "submit e prompt aspectRatio modelId imagePath = (Inr op0, tr0)"
    and "\<forall>j\<le>n. pending e op0 j \<and> within_budget e j"
    and "finished e op0 (Suc n)"
  shows "\<exists>operation'.
           snapshot e op0 (Suc n) = Inr operation' \<and> op_done operation' \<and>
           poll_loop e (now e 0) 0 op0 tr0 =
             Some (Completed operation', Suc n, tr0 @ poll_events e op0 (Suc n)) \<and>
           polls (poll_events e op0 (Suc n)) = Suc n \<and>
           generateVideo_try e prompt aspectRatio modelId imagePath =
             Some (extract_video e modelId aspectRatio operation' (Suc (Suc n))
                     (tr0 @ poll_events e op0 (Suc n)))"
proof -
  from assms(3) obtain operation' where s: "snapshot e op0 (Suc n) = Inr operation'"
    and d: "op_done operation'"
    by (auto simp: finished_def split: sum.splits)
  from assms(2) have p: "\<forall>j<Suc n. pending e op0 j \<and> within_budget e j"
    by (simp add: less_Suc_eq_le)
  have "poll_loop e (now e 0) 0 op0 tr0 =
          poll_loop e (now e 0) (Suc n) operation' (tr0 @ poll_events e op0 (Suc n))"
    using p s by (rule poll_loop_pending)
  also have "\<dots> = Some (Completed operation', Suc n, tr0 @ poll_events e op0 (Suc n))"
    using d by (subst poll_loop.simps) simp
  finally have run: "poll_loop e (now e 0) 0 op0 tr0 =
      Some (Completed operation', Suc n, tr0 @ poll_events e op0 (Suc n))" .
  from p have count: "polls (poll_events e op0 (Suc n)) = Suc n"
    by (intro poll_events_polls) simp
  from assms(1) run
  have "generateVideo_try e prompt aspectRatio modelId imagePath =
          Some (extract_video e modelId aspectRatio operation' (Suc (Suc n))
                  (tr0 @ poll_events e op0 (Suc n)))"
    by (simp add: generateVideo_try_def)
  with s d run count show ?thesis by blast
qed

lemma done_after_snapshot:
  "snapshot (done_after_env n step) submitted j =
     Inr (if n < j then submitted\<lparr>op_done := True, response := Some one_video\<rparr> else submitted)"
  by (induction j) (auto simp: done_after_env_def base_env_def submitted_def)

text \<open>Two unfinished polls, the third finished, ten seconds a round: three polls.\<close>

theorem poll_loop_exact_polls_witness:
  "\<exists>operation'.
     snapshot (done_after_env 2 10000) submitted 3 = Inr operation' \<and> op_done operation' \<and>
     poll_loop (done_after_env 2 10000) (now (done_after_env 2 10000) 0) 0 submitted
         [GenerateVideos \<lparr>req_model = ''veo-3.0-generate-001'', req_prompt = ''a cat'',
            req_image = None, req_config = \<lparr>config_aspectRatio = ''9:16''\<rparr>\<rparr>] =
       Some (Completed operation', 3,
             [GenerateVideos \<lparr>req_model = ''veo-3.0-generate-001'', req_prompt = ''a cat'',
                req_image = None, req_config = \<lparr>config_aspectRatio = ''9:16''\<rparr>\<rparr>] @
             poll_events (done_after_env 2 10000) submitted 3) \<and>
     polls (poll_events (done_after_env 2 10000) submitted 3) = 3 \<and>
     generateVideo_try (done_after_env 2 10000) ''a cat'' ''9:16'' ''veo-3.0-generate-001'' None =
       Some (extract_video (done_after_env 2 10000) ''veo-3.0-generate-001'' ''9:16''
               operation' 4
               ([GenerateVideos \<lparr>req_model = ''veo-3.0-generate-001'', req_prompt = ''a cat'',
                   req_image = None, req_config = \<lparr>config_aspectRatio = ''9:16''\<rparr>\<rparr>] @
                poll_events (done_after_env 2 10000) submitted 3))"
proof -
  have "submit (done_after_env 2 10000) ''a cat'' ''9:16'' ''veo-3.0-generate-001'' None =
      (Inr submitted,
       [GenerateVideos \<lparr>req_model = ''veo-3.0-generate-001'', req_prompt = ''a cat'',
          req_image = None, req_config = \<lparr>config_aspectRatio = ''9:16''\<rparr>\<rparr>])"
    by (simp add: submit_def done_after_env_def base_env_def submitted_def)
  moreover have "\<forall>j\<le>2. pending (done_after_env 2 10000) submitted j \<and>
      within_budget (done_after_env 2 10000) j"
  proof -
    have "\<forall>j\<le>2. pending (done_after_env 2 10000) submitted j"
      unfolding pending_def done_after_snapshot by (simp add: submitted_def)
    moreover have "\<forall>j\<le>2. within_budget (done_after_env 2 10000) j"
      by (auto simp: within_budget_def done_after_env_def base_env_def ticking_def maxWait_def)
    ultimately show ?thesis by simp
  qed
  moreover have "finished (done_after_env 2 10000) submitted (Suc 2)"
    by (simp add: finished_def done_after_snapshot)
  ultimately have "\<exists>operation'.
           snapshot (done_after_env 2 10000) submitted (Suc 2) = Inr operation' \<and>
           op_done operation' \<and>
           poll_loop (done_after_env 2 10000) (now (done_after_env 2 10000) 0) 0 submitted
             [GenerateVideos \<lparr>req_model = ''veo-3.0-generate-001'', req_prompt = ''a cat'',
                req_image = None, req_config = \<lparr>config_aspectRatio = ''9:16''\<rparr>\<rparr>] =
             Some (Completed operation', Suc 2,
               [GenerateVideos \<lparr>req_model = ''veo-3.0-generate-001'', req_prompt = ''a cat'',
                  req_image = None, req_config = \<lparr>config_aspectRatio = ''9:16''\<rparr>\<rparr>] @
               poll_events (done_after_env 2 10000) submitted (Suc 2)) \<and>
           polls (poll_events (done_after_env 2 10000) submitted (Suc 2)) = Suc 2 \<and>
           generateVideo_try (done_after_env 2 10000) ''a cat'' ''9:16''
               ''veo-3.0-generate-001'' None =
             Some (extract_video (done_after_env 2 10000) ''veo-3.0-generate-001'' ''9:16''
                     operation' (Suc (Suc 2))
                     ([GenerateVideos \<lparr>req_model = ''veo-3.0-generate-001'',
                         req_prompt = ''a cat'', req_image = None,
                         req_config = \<lparr>config_aspectRatio = ''9:16''\<rparr>\<rparr>] @
                      poll_events (done_after_env 2 10000) submitted (Suc 2)))"
    by (rule poll_loop_exact_polls)
  moreover have "Suc 2 = 3" and "Suc (Suc 2) = 4" by simp_all
  ultimately show ?thesis by (simp only:)
qed

text \<open>
  C4 as stated fails once the rounds no longer fit into the budget.  With a clock
  that moves by exactly ten seconds a round, and a job whose first 31 polls answer
  \<open>done = false\<close> and whose 32nd would answer \<open>done = true\<close>, the check of round 32
  reads 310 seconds: the handler has made 31 polls and returns the time-out text.
\<close>

theorem time_out_before_done:
  "list_all (pending (done_after_env 31 10000) submitted) [0..<32] \<and>
   finished (done_after_env 31 10000) submitted 32 \<and>
   map_option fst (generateVideo (done_after_env 31 10000) ''a cat'' None None None) =
     Some (Inr (Timed_out, Content [TextContent
       ''Video generation timed out after 5 minutes. Operation: operations/veo-1''])) \<and>
   map_option (polls \<circ> snd) (generateVideo (done_after_env 31 10000) ''a cat'' None None None) =
     Some 31"
proof -
  have "list_all (pending (done_after_env 31 10000) submitted) [0..<32]"
    unfolding pending_def done_after_snapshot list_all_iff by (simp add: submitted_def)
  moreover have "finished (done_after_env 31 10000) submitted 32"
    by (simp add: finished_def done_after_snapshot)
  moreover have "map_option fst (generateVideo (done_after_env 31 10000) ''a cat'' None None None) =
     Some (Inr (Timed_out, Content [TextContent
       ''Video generation timed out after 5 minutes. Operation: operations/veo-1'']))"
    by (simp add: generateVideo_def generateVideo_try_def submit_def done_after_env_def
        base_env_def poll_loop.simps ticking_def or_default_def maxWait_def template_def
        text_result_def)
  moreover have "map_option (polls \<circ> snd)
      (generateVideo (done_after_env 31 10000) ''a cat'' None None None) = Some 31"
    by (simp add: generateVideo_def generateVideo_try_def submit_def done_after_env_def
        base_env_def poll_loop.simps ticking_def or_default_def maxWait_def template_def
        text_result_def polls_def)
  ultimately show ?thesis by blast
qed

text \<open>
  C3, as amended.  Let the snapshots of an operation be unfinished up to round \<open>k\<close>,
  and let round \<open>k\<close> be the first whose check of the clock exceeds the budget.  Then
  the handler returns the time-out text, which carries the \<open>name\<close> of the snapshot
  it holds and the fixed words \<open>5 minutes\<close>, not the elapsed time; and it has slept
  and polled exactly \<open>k\<close> times, so the failing check was made before any further
  sleep.
\<close>

theorem generateVideo_timed_out:
  assumes "submit e prompt (or_default aspectRatio ''9:16'')
             (or_default model ''veo-3.0-generate-001'') imagePath = (Inr op0, tr0)"
    and "\<forall>j\<le>k. pending e op0 j"
    and "\<forall>j<k. within_budget e j"
    and "\<not> within_budget e k"
  shows "\<exists>operation'. snapshot e op0 k = Inr operation' \<and>
           generateVideo e prompt aspectRatio model imagePath =
             Some (Inr (Timed_out, text_result
                     (''Video generation timed out after 5 minutes. Operation: '' @
                      template (name operation'))),
                   tr0 @ poll_events e op0 k) \<and>
           sleeps (poll_events e op0 k) = k \<and>
           polls (poll_events e op0 k) = k"
proof -
  from assms(2) have "pending e op0 k" by simp
  then obtain operation' where s: "snapshot e op0 k = Inr operation'"
    and nd: "\<not> op_done operation'"
    by (auto simp: pending_def split: sum.splits)
  from assms(2,3) have p: "\<forall>j<k. pending e op0 j \<and> within_budget e j" by simp
  have "poll_loop e (now e 0) 0 op0 tr0 =
          poll_loop e (now e 0) k operation' (tr0 @ poll_events e op0 k)"
    using p s by (rule poll_loop_pending)
  also have "\<dots> = Some (Returned (text_result
                     (''Video generation timed out after 5 minutes. Operation: '' @
                      template (name operation'))), k, tr0 @ poll_events e op0 k)"
    using nd assms(4) by (subst poll_loop.simps) (simp add: within_budget_def)
  finally have run: "poll_loop e (now e 0) 0 op0 tr0 =
      Some (Returned (text_result
                     (''Video generation timed out after 5 minutes. Operation: '' @
                      template (name operation'))), k, tr0 @ poll_events e op0 k)" .
  have "generateVideo e prompt aspectRatio model imagePath =
             Some (Inr (Timed_out, text_result
                     (''Video generation timed out after 5 minutes. Operation: '' @
                      template (name operation'))),
                   tr0 @ poll_events e op0 k)"
    using assms(1) run by (simp add: generateVideo_def generateVideo_try_def)
  moreover from p have "sleeps (poll_events e op0 k) = k"
    by (intro poll_events_sleeps) simp
  moreover from p have "polls (poll_events e op0 k) = k"
    by (intro poll_events_polls) simp
  ultimately show ?thesis using s by blast
qed

lemma never_done_snapshot:
  "snapshot (never_done_env step) operation j = Inr operation"
  by (induction j) (simp_all add: never_done_env_def base_env_def)

lemma never_done_submit:
  "submit (never_done_env step) ''a cat'' ''9:16'' ''veo-3.0-generate-001'' None =
     (Inr \<lparr>name = Some ''operations/veo-1'', op_done = False, response = None\<rparr>,
      [GenerateVideos \<lparr>req_model = ''veo-3.0-generate-001'', req_prompt = ''a cat'',
         req_image = None, req_config = \<lparr>config_aspectRatio = ''9:16''\<rparr>\<rparr>])"
  by (simp add: submit_def never_done_env_def base_env_def)

text \<open>Two minutes a round: the check of round 3 reads six minutes.\<close>

theorem generateVideo_timed_out_witness:
  "\<exists>operation'.
     snapshot (never_done_env 120000)
       \<lparr>name = Some ''operations/veo-1'', op_done = False, response = None\<rparr> 3 = Inr operation' \<and>
     generateVideo (never_done_env 120000) ''a cat'' None None None =
       Some (Inr (Timed_out, text_result
               (''Video generation timed out after 5 minutes. Operation: '' @
                template (name operation'))),
             [GenerateVideos \<lparr>req_model = ''veo-3.0-generate-001'', req_prompt = ''a cat'',
                req_image = None, req_config = \<lparr>config_aspectRatio = ''9:16''\<rparr>\<rparr>] @
             poll_events (never_done_env 120000)
               \<lparr>name = Some ''operations/veo-1'', op_done = False, response = None\<rparr> 3) \<and>
     sleeps (poll_events (never_done_env 120000)
               \<lparr>name = Some ''operations/veo-1'', op_done = False, response = None\<rparr> 3) = 3 \<and>
     polls (poll_events (never_done_env 120000)
               \<lparr>name = Some ''operations/veo-1'', op_done = False, response = None\<rparr> 3) = 3"
proof (rule generateVideo_timed_out)
  show "submit (never_done_env 120000) ''a cat'' (or_default None ''9:16'')
          (or_default None ''veo-3.0-generate-001'') None =
        (Inr \<lparr>name = Some ''operations/veo-1'', op_done = False, response = None\<rparr>,
         [GenerateVideos \<lparr>req_model = ''veo-3.0-generate-001'', req_prompt = ''a cat'',
            req_image = None, req_config = \<lparr>config_aspectRatio = ''9:16''\<rparr>\<rparr>])"
    by (simp add: or_default_def never_done_submit)
  show "\<forall>j\<le>3. pending (never_done_env 120000)
          \<lparr>name = Some ''operations/veo-1'', op_done = False, response = None\<rparr> j"
    by (simp add: pending_def never_done_snapshot)
  show "\<forall>j<3. within_budget (never_done_env 120000) j"
    by (auto simp: within_budget_def never_done_env_def base_env_def ticking_def maxWait_def)
  show "\<not> within_budget (never_done_env 120000) 3"
    by (simp add: within_budget_def never_done_env_def base_env_def ticking_def maxWait_def)
qed

text \<open>
  C3 as stated fails in its last part.  Two runs that differ in the elapsed time at
  the failing check (301.5 and 303 seconds) return the same value: the text names the
  operation, and no part of it depends on the elapsed time.
\<close>

theorem timed_out_text_without_elapsed:
  "generateVideo (never_done_env 10050) ''a cat'' None None None =
     generateVideo (never_done_env 10100) ''a cat'' None None None \<and>
   map_option fst (generateVideo (never_done_env 10050) ''a cat'' None None None) =
     Some (Inr (Timed_out, Content [TextContent
       ''Video generation timed out after 5 minutes. Operation: operations/veo-1''])) \<and>
   now (never_done_env 10050) 31 - now (never_done_env 10050) 0 = 301500 \<and>
   now (never_done_env 10100) 31 - now (never_done_env 10100) 0 = 303000"
  by (simp add: generateVideo_def generateVideo_try_def submit_def never_done_env_def
      base_env_def poll_loop.simps ticking_def or_default_def maxWait_def template_def
      text_result_def)

section \<open>File writes\<close>

text \<open>The polling loop adds sleeps and polls to the effects it was given, nothing
  else.\<close>

lemma poll_loop_extends_aux:
  assumes "poll_loop e s i operation tr = Some y"
  shows "\<exists>more. snd (snd y) = tr @ more \<and> (\<forall>ev \<in> set more. is_sleep ev \<or> is_poll ev)"
proof (rule poll_loop.raw_induct
    [where P = "\<lambda>e s i operation tr y.
        \<exists>more. snd (snd y) = tr @ more \<and> (\<forall>ev \<in> set more. is_sleep ev \<or> is_poll ev)",
      OF _ assms])
  fix f e s i operation tr y
  assume IH: "\<And>e s i operation tr y. f e s i operation tr = Some y \<Longrightarrow>
                \<exists>more. snd (snd y) = tr @ more \<and> (\<forall>ev \<in> set more. is_sleep ev \<or> is_poll ev)"
    and step: "(if op_done operation then Some (Completed operation, i, tr)
      else let elapsed = now e (Suc i) - s
           in if maxWait < elapsed
              then Some (Returned (text_result
                        (''Video generation timed out after 5 minutes. Operation: '' @
                         template (name operation))), i, tr)
              else case getVideosOperation e i operation of
                   Inl err \<Rightarrow>
                     Some (Raised err, Suc i, tr @ [Sleep pollInterval, GetVideosOperation operation])
                   | Inr operation' \<Rightarrow>
                       f e s (Suc i) operation'
                        (tr @ [Sleep pollInterval, GetVideosOperation operation])) = Some y"
  show "\<exists>more. snd (snd y) = tr @ more \<and> (\<forall>ev \<in> set more. is_sleep ev \<or> is_poll ev)"
  proof (cases "op_done operation")
    case True
    with step show ?thesis by auto
  next
    case nd: False
    show ?thesis
    proof (cases "maxWait < now e (Suc i) - s")
      case True
      with nd step show ?thesis by auto
    next
      case wb: False
      show ?thesis
      proof (cases "getVideosOperation e i operation")
        case (Inl err)
        with nd wb step
        have "snd (snd y) = tr @ [Sleep pollInterval, GetVideosOperation operation]" by auto
        then show ?thesis by auto
      next
        case (Inr operation')
        with nd wb step
        have "f e s (Suc i) operation' (tr @ [Sleep pollInterval, GetVideosOperation operation]) = Some y"
          by simp
        from IH [OF this] obtain more
          where m: "snd (snd y) = (tr @ [Sleep pollInterval, GetVideosOperation operation]) @ more"
            and k: "\<forall>ev \<in> set more. is_sleep ev \<or> is_poll ev"
          by blast
        from m have "snd (snd y) = tr @ ([Sleep pollInterval, GetVideosOperation operation] @ more)"
          by simp
        moreover from k
        have "\<forall>ev \<in> set ([Sleep pollInterval, GetVideosOperation operation] @ more).
                is_sleep ev \<or> is_poll ev"
          by simp
        ultimately show ?thesis by blast
      qed
    qed
  qed
qed

lemma poll_loop_extends:
  assumes "poll_loop e s i operation tr = Some (x, j, tr')"
  shows "\<exists>more. tr' = tr @ more \<and> writes more = 0 \<and> reads more = 0"
proof -
  from poll_loop_extends_aux [OF assms] obtain more
    where m: "tr' = tr @ more" and k: "\<forall>ev \<in> set more. is_sleep ev \<or> is_poll ev"
    by auto
  have "filter is_write more = []"
    unfolding filter_empty_conv
  proof
    fix ev assume "ev \<in> set more"
    with k have "is_sleep ev \<or> is_poll ev" by simp
    then show "\<not> is_write ev" by (cases ev) simp_all
  qed
  moreover have "filter is_read more = []"
    unfolding filter_empty_conv
  proof
    fix ev assume "ev \<in> set more"
    with k have "is_sleep ev \<or> is_poll ev" by simp
    then show "\<not> is_read ev" by (cases ev) simp_all
  qed
  ultimately show ?thesis using m by (simp add: writes_def reads_def)
qed

lemma writes_append [simp]: "writes (tr @ tr') = writes tr + writes tr'"
  by (simp add: writes_def)

lemma reads_append [simp]: "reads (tr @ tr') = reads tr + reads tr'"
  by (simp add: reads_def)















section \<open>The choice of the sample collection\<close>

text \<open>
  C1.  The claim is that a response whose \<open>generatedSamples\<close> is present and empty
  and whose \<open>generatedVideos\<close> is not empty has the first element of
  \<open>generatedVideos\<close> used as the sample.  The code does not do that.  Evaluated on
  a finished operation with such a response, line 179 takes the empty array, which is
  truthy, and never looks at \<open>generatedVideos\<close>: the selection is empty, nothing is
  downloaded, and the call answers that no video was returned although the response
  holds one.
\<close>

theorem empty_generatedSamples_hides_generatedVideos:
  "generatedSamples both_fields = Some [] \<and>
   generatedVideos both_fields = Some [\<lparr>sample_video = Some \<lparr>uri = Some ''https://x/y''\<rparr>\<rparr>] \<and>
   select_samples \<lparr>name = Some ''operations/veo-1'', op_done = True,
                    response = Some both_fields\<rparr> = [] \<and>
   generateVideo both_fields_env ''a cat'' None None None =
     Some (Inr (No_video, Content [TextContent
             ''Video generation completed but no video was returned. Response: {...}'']),
           [GenerateVideos \<lparr>req_model = ''veo-3.0-generate-001'', req_prompt = ''a cat'',
              req_image = None, req_config = \<lparr>config_aspectRatio = ''9:16''\<rparr>\<rparr>])"
  by (simp add: both_fields_def select_samples_def generateVideo_def generateVideo_try_def
      submit_def both_fields_env_def base_env_def poll_loop.simps or_default_def
      extract_video_def text_result_def stringify_def)

section \<open>Exceptions\<close>





section \<open>The seed image\<close>

lemma download_reads:
  "download e m a u k tr = (r, tr') \<Longrightarrow> reads tr' = reads tr"
  by (auto simp: download_def reads_def Let_def split: sum.splits if_splits option.splits)

lemma download_prefix:
  "download e m a u k tr = (r, tr') \<Longrightarrow> \<exists>more. tr' = tr @ more"
  by (auto simp: download_def Let_def split: sum.splits if_splits option.splits)

lemma extract_video_after:
  assumes "extract_video e m a operation k tr = (r, tr')"
  shows "(\<exists>more. tr' = tr @ more) \<and> reads tr' = reads tr"
proof (cases "\<exists>u. download e m a u k tr = (r, tr')")
  case True
  then show ?thesis by (auto dest: download_reads download_prefix)
next
  case False
  with assms have "tr' = tr"
    by (auto simp: extract_video_def Let_def split: list.splits option.splits if_splits)
  then show ?thesis by simp
qed

lemma generateVideo_try_after_submit:
  assumes "generateVideo_try e p a m ip = Some (r, tr)"
  shows "\<exists>more. tr = snd (submit e p a m ip) @ more \<and> reads more = 0"
proof (cases "submit e p a m ip")
  case (Pair s tr0)
  show ?thesis
  proof (cases s)
    case (Inl err)
    with Pair assms show ?thesis by (auto simp: generateVideo_try_def reads_def)
  next
    case (Inr op0)
    with Pair assms obtain x i tr1 where run: "poll_loop e (now e 0) 0 op0 tr0 = Some (x, i, tr1)"
      by (auto simp: generateVideo_try_def split: option.splits)
    from poll_loop_extends [OF run] obtain more where m: "tr1 = tr0 @ more" and rm: "reads more = 0"
      by auto
    show ?thesis
    proof (cases x)
      case (Completed operation')
      with Pair Inr run assms have "extract_video e m a operation' (Suc i) tr1 = (r, tr)"
        by (simp add: generateVideo_try_def)
      from extract_video_after [OF this] obtain more' where "tr = tr1 @ more'"
        and "reads tr = reads tr1"
        by auto
      with m rm Pair show ?thesis by auto
    next
      case (Returned c)
      with Pair Inr run assms m rm show ?thesis by (auto simp: generateVideo_try_def)
    next
      case (Raised err)
      with Pair Inr run assms m rm show ?thesis by (auto simp: generateVideo_try_def)
    qed
  qed
qed

text \<open>
  C7.  A call of generateVideo whose \<open>imagePath\<close> names a file that does not exist
  takes the text-to-video submission: it submits the request without an image and
  reads no file, and what the submission answers is what the remote call answers,
  so the path itself is no error.  The call does what the same call without
  \<open>imagePath\<close> does: the same effects and the same result.
\<close>

theorem missing_seed_image_is_no_image:
  assumes "\<not> existsSync e imagePath"
  shows "submit e prompt aspectRatio modelId (Some imagePath) =
           (generateVideos e \<lparr>req_model = modelId, req_prompt = prompt, req_image = None,
                               req_config = \<lparr>config_aspectRatio = aspectRatio\<rparr>\<rparr>,
            [GenerateVideos \<lparr>req_model = modelId, req_prompt = prompt, req_image = None,
                              req_config = \<lparr>config_aspectRatio = aspectRatio\<rparr>\<rparr>]) \<and>
         submit e prompt aspectRatio modelId (Some imagePath) =
           submit e prompt aspectRatio modelId None \<and>
         generateVideo e prompt aspectRatio_param model_param (Some imagePath) =
           generateVideo e prompt aspectRatio_param model_param None \<and>
         (generateVideo e prompt aspectRatio_param model_param (Some imagePath) = Some (r, tr) \<longrightarrow>
            (\<exists>more. tr =
               GenerateVideos
                 \<lparr>req_model =
                    (case model_param of None \<Rightarrow> ''veo-3.0-generate-001''
                     | Some m \<Rightarrow> if m = [] then ''veo-3.0-generate-001'' else m),
                  req_prompt = prompt, req_image = None,
                  req_config = \<lparr>config_aspectRatio =
                    (case aspectRatio_param of None \<Rightarrow> ''9:16''
                     | Some a \<Rightarrow> if a = [] then ''9:16'' else a)\<rparr>\<rparr> # more) \<and>
            reads tr = 0)"
proof -
  have s: "submit e p a m (Some imagePath) =
           (generateVideos e \<lparr>req_model = m, req_prompt = p, req_image = None,
                               req_config = \<lparr>config_aspectRatio = a\<rparr>\<rparr>,
            [GenerateVideos \<lparr>req_model = m, req_prompt = p, req_image = None,
                              req_config = \<lparr>config_aspectRatio = a\<rparr>\<rparr>])" for p a m
    using assms by (simp add: submit_def Let_def)
  have n: "submit e p a m (Some imagePath) = submit e p a m None" for p a m
    using assms by (simp add: submit_def Let_def)
  have g: "generateVideo e prompt aspectRatio_param model_param (Some imagePath) =
           generateVideo e prompt aspectRatio_param model_param None"
    by (simp add: generateVideo_def generateVideo_try_def n)
  have t: "(\<exists>more. tr =
               GenerateVideos
                 \<lparr>req_model = or_default model_param ''veo-3.0-generate-001'',
                  req_prompt = prompt, req_image = None,
                  req_config = \<lparr>config_aspectRatio = or_default aspectRatio_param ''9:16''\<rparr>\<rparr> #
               more) \<and> reads tr = 0"
    if "generateVideo e prompt aspectRatio_param model_param (Some imagePath) = Some (r, tr)"
  proof -
    from that obtain r' where "generateVideo_try e prompt (or_default aspectRatio_param ''9:16'')
        (or_default model_param ''veo-3.0-generate-001'') (Some imagePath) = Some (r', tr)"
      by (auto simp: generateVideo_def split: option.splits sum.splits)
    from generateVideo_try_after_submit [OF this] s show ?thesis
      by (auto simp: reads_def)
  qed
  have d: "or_default x y = (case x of None \<Rightarrow> y | Some z \<Rightarrow> if z = [] then y else z)" for x y
    by (simp add: or_default_def)
  from s n g t show ?thesis by (auto simp: d)
qed

text \<open>A world in which \<open>/tmp/cat.JPG\<close> exists and \<open>/tmp/missing.png\<close> does not.\<close>

theorem missing_seed_image_is_no_image_witness:
  "existsSync seeded_env ''/tmp/cat.JPG'' \<and>
   \<not> existsSync seeded_env ''/tmp/missing.png'' \<and>
   submit seeded_env ''a cat'' ''9:16'' ''veo-3.0-generate-001'' (Some ''/tmp/missing.png'') =
     (Inr submitted,
      [GenerateVideos \<lparr>req_model = ''veo-3.0-generate-001'', req_prompt = ''a cat'',
         req_image = None, req_config = \<lparr>config_aspectRatio = ''9:16''\<rparr>\<rparr>]) \<and>
   generateVideo seeded_env ''a cat'' None None (Some ''/tmp/missing.png'') =
     generateVideo seeded_env ''a cat'' None None None \<and>
   map_option fst (generateVideo seeded_env ''a cat'' None None None) =
     Some (Inr (Video_saved, Content [TextContent
       ''{status:success,file:/srv/gemini-video-35000.mp4,size_mb:0.0,model:veo-3.0-generate-001,aspectRatio:9:16}'']))"
proof -
  have x: "existsSync seeded_env ''/tmp/cat.JPG''"
    by (simp add: seeded_env_def)
  have h: "\<not> existsSync seeded_env ''/tmp/missing.png''"
    by (simp add: seeded_env_def)
  have g: "generateVideos seeded_env
      \<lparr>req_model = ''veo-3.0-generate-001'', req_prompt = ''a cat'', req_image = None,
        req_config = \<lparr>config_aspectRatio = ''9:16''\<rparr>\<rparr> = Inr submitted"
    by (simp add: seeded_env_def done_after_env_def base_env_def submitted_def)
  have v: "map_option fst (generateVideo seeded_env ''a cat'' None None None) =
     Some (Inr (Video_saved, Content [TextContent
       ''{status:success,file:/srv/gemini-video-35000.mp4,size_mb:0.0,model:veo-3.0-generate-001,aspectRatio:9:16}'']))"
    by (simp add: generateVideo_def generateVideo_try_def submit_def seeded_env_def
        done_after_env_def base_env_def poll_loop.simps ticking_def or_default_def maxWait_def
        template_def text_result_def extract_video_def select_samples_def one_video_def
        sample_uri_def download_def Let_def show_int_def show_nat.simps stringify_def
        mb_toFixed1_def)
  from missing_seed_image_is_no_image [OF h, of "''a cat''" "''9:16''" "''veo-3.0-generate-001''"
      None None] x h g v
  show ?thesis by simp
qed

lemma lower_char_eq_iff:
  assumes "\<not> is_upper d"
  shows "lower_char c = d \<longleftrightarrow> c = d \<or> (is_lower d \<and> c = upper_char d)"
proof (cases "is_upper c")
  case True
  then have n: "65 \<le> (of_char c :: nat)" "(of_char c :: nat) \<le> 90"
    by (simp_all add: is_upper_def)
  then have l: "lower_char c = char_of ((of_char c :: nat) + 32)"
    by (simp add: lower_char_def)
  from True assms have ne: "c \<noteq> d" by auto
  show ?thesis
  proof
    assume "lower_char c = d"
    with l have d: "(of_char d :: nat) = of_char c + 32"
      using n by (auto simp: char_of_eq_iff take_bit_eq_mod)
    then have "is_lower d" using n by (simp add: is_lower_def)
    moreover from d have "upper_char d = c" by (simp add: upper_char_def)
    ultimately show "c = d \<or> (is_lower d \<and> c = upper_char d)" by simp
  next
    assume "c = d \<or> (is_lower d \<and> c = upper_char d)"
    with ne have ld: "is_lower d" and c: "c = upper_char d" by auto
    from ld have "(of_char d :: nat) - 32 + 32 = of_char d" by (simp add: is_lower_def)
    moreover from ld have "(of_char d :: nat) - 32 < 256" unfolding is_lower_def by arith
    with c have "(of_char c :: nat) = of_char d - 32"
      by (simp add: upper_char_def)
    ultimately show "lower_char c = d" using l by simp
  qed
next
  case False
  then have l: "lower_char c = c" by (auto simp: lower_char_def is_upper_def)
  have "\<not> (is_lower d \<and> c = upper_char d)"
  proof
    assume a: "is_lower d \<and> c = upper_char d"
    then have "(of_char d :: nat) - 32 < 256" unfolding is_lower_def by arith
    with a have "(of_char c :: nat) = of_char d - 32" by (simp add: upper_char_def)
    moreover from a have "97 \<le> (of_char d :: nat)" "(of_char d :: nat) \<le> 122"
      by (simp_all add: is_lower_def)
    ultimately have "65 \<le> (of_char c :: nat) \<and> (of_char c :: nat) \<le> 90" by arith
    then have "is_upper c" by (simp add: is_upper_def)
    with False show False by simp
  qed
  with l show ?thesis by auto
qed

lemma toLowerCase_eq_iff:
  "\<forall>d \<in> set t. \<not> is_upper d \<Longrightarrow> toLowerCase s = t \<longleftrightarrow> s \<in> set (case_variants t)"
proof (induction t arbitrary: s)
  case Nil
  then show ?case by (simp add: toLowerCase_def)
next
  case (Cons d t)
  then have IH: "\<And>s. toLowerCase s = t \<longleftrightarrow> s \<in> set (case_variants t)"
    and d: "\<not> is_upper d" by simp_all
  show ?case
  proof (cases s)
    case Nil
    then show ?thesis by (auto simp: toLowerCase_def)
  next
    case (Cons c cs)
    have "toLowerCase (c # cs) = d # t \<longleftrightarrow> lower_char c = d \<and> toLowerCase cs = t"
      by (simp add: toLowerCase_def)
    also have "\<dots> \<longleftrightarrow> (c = d \<or> (is_lower d \<and> c = upper_char d)) \<and> cs \<in> set (case_variants t)"
      using lower_char_eq_iff [OF d] IH by simp
    also have "\<dots> \<longleftrightarrow> c # cs \<in> set (case_variants (d # t))"
      by auto
    finally show ?thesis using Cons by simp
  qed
qed

lemma jpg_variants:
  "toLowerCase ext = ''.jpg'' \<or> toLowerCase ext = ''.jpeg'' \<longleftrightarrow>
     ext \<in> set (case_variants ''.jpg'') \<union> set (case_variants ''.jpeg'')"
proof -
  have "\<forall>d \<in> set ''.jpg''. \<not> is_upper d" by (simp add: is_upper_def)
  moreover have "\<forall>d \<in> set ''.jpeg''. \<not> is_upper d" by (simp add: is_upper_def)
  ultimately show ?thesis by (simp add: toLowerCase_eq_iff del: case_variants.simps)
qed

lemma JPG_variant: "''.JPG'' \<in> set (case_variants ''.jpg'')"
  by code_simp

lemma none_variant: "[] \<notin> set (case_variants ''.jpg'') \<union> set (case_variants ''.jpeg'')"
  by (simp add: is_lower_def)

text \<open>
  C8.  For a seed image that exists and can be read, the request submitted carries the
  MIME type \<open>image/jpeg\<close> exactly when the extension of the path is a spelling of
  \<open>.jpg\<close> or of \<open>.jpeg\<close> in any mix of upper and lower case, \<open>.JPG\<close> among them,
  and \<open>image/png\<close> for every other extension, the empty one among them.
\<close>

theorem seed_image_mimeType:
  assumes "imagePath \<noteq> []" and "existsSync e imagePath"
    and "readFileSync e imagePath = Inr imageBuffer"
  shows "snd (submit e prompt aspectRatio modelId (Some imagePath)) =
           [ReadFile imagePath,
            GenerateVideos
              \<lparr>req_model = modelId, req_prompt = prompt,
               req_image = Some
                 \<lparr>imageBytes = toBase64 e imageBuffer,
                  image_mimeType =
                    (if extname e imagePath \<in>
                          set (case_variants ''.jpg'') \<union> set (case_variants ''.jpeg'')
                     then ''image/jpeg'' else ''image/png'')\<rparr>,
               req_config = \<lparr>config_aspectRatio = aspectRatio\<rparr>\<rparr>] \<and>
         ''.JPG'' \<in> set (case_variants ''.jpg'') \<and>
         [] \<notin> set (case_variants ''.jpg'') \<union> set (case_variants ''.jpeg'')"
  using assms jpg_variants [of "extname e imagePath"] JPG_variant none_variant
  by (simp add: submit_def seed_mimeType_def Let_def del: case_variants.simps)

theorem seed_image_mimeType_witness:
  "snd (submit seed_env ''a cat'' ''9:16'' ''veo-3.0-generate-001'' (Some ''/tmp/cat.JPG'')) =
     [ReadFile ''/tmp/cat.JPG'',
      GenerateVideos
        \<lparr>req_model = ''veo-3.0-generate-001'', req_prompt = ''a cat'',
         req_image = Some \<lparr>imageBytes = ''JFIF'', image_mimeType = ''image/jpeg''\<rparr>,
         req_config = \<lparr>config_aspectRatio = ''9:16''\<rparr>\<rparr>]"
proof -
  have "''/tmp/cat.JPG'' \<noteq> []" by simp
  moreover have "existsSync seed_env ''/tmp/cat.JPG''"
    by (simp add: seed_env_def base_env_def)
  moreover have "readFileSync seed_env ''/tmp/cat.JPG'' = Inr ''JFIF''"
    by (simp add: seed_env_def base_env_def)
  moreover have "extname seed_env ''/tmp/cat.JPG'' = ''.JPG''"
    by (simp add: seed_env_def base_env_def)
  moreover have "toBase64 seed_env ''JFIF'' = ''JFIF''"
    by (simp add: seed_env_def base_env_def)
  ultimately show ?thesis
    using seed_image_mimeType [of "''/tmp/cat.JPG''" seed_env "''JFIF''" "''a cat''" "''9:16''"
        "''veo-3.0-generate-001''"]
    by (simp del: case_variants.simps)
qed

section \<open>The parameters of generateImage\<close>

text \<open>
  C9.  Two calls of generateImage that differ only in \<open>aspectRatio\<close> issue the same
  request and return the same result: the value is defaulted at line 35 and never
  read again.
\<close>

theorem aspectRatio_unused:
  "generateImage e prompt aspectRatio outputFormat = generateImage e prompt aspectRatio' outputFormat"
  by (simp add: generateImage_def generateImage_try_def)

theorem aspectRatio_unused_witness:
  "generateImage image_env ''a cat'' (Some ''16:9'') None =
   generateImage image_env ''a cat'' None None"
  by (rule aspectRatio_unused)

text \<open>
  C10.  When the scan has found inline data and the file can be written, the image
  returned has the MIME type \<open>image/\<close> followed by the \<open>outputFormat\<close> of the
  caller, and the file written has that same \<open>outputFormat\<close> as its extension;
  \<open>png\<close> stands in for an \<open>outputFormat\<close> that is absent or the empty string.
  The MIME type that the payload reports is not read: changing it changes nothing.
\<close>

theorem image_type_from_outputFormat:
  assumes "generateContent e (if prompt = [] then ''Default image prompt'' else prompt) =
             Inr result"
    and "response_parts result = Inr ps"
    and "fst (scan_parts ps (None, None)) = Some imageResult"
    and "fmt = (case outputFormat of None \<Rightarrow> ''png''
                | Some f \<Rightarrow> if f = [] then ''png'' else f)"
    and "writeFileSync e (''gemini-image-'' @ show_int (now e 0) @ ''.'' @ fmt)
           (fromBase64 e (data imageResult)) = None"
  shows "generateImage e prompt aspectRatio outputFormat =
           (Inr (Image_saved,
              Content [ImageContent (data imageResult) (''image/'' @ fmt)]),
            [GenerateContent (if prompt = [] then ''Default image prompt'' else prompt),
             WriteFile (''gemini-image-'' @ show_int (now e 0) @ ''.'' @ fmt)
               (fromBase64 e (data imageResult))]) \<and>
         image_outcome e fmt (Some (imageResult\<lparr>mimeType := m\<rparr>), t) tr =
           image_outcome e fmt (Some imageResult, t) tr"
proof -
  have "or_default outputFormat ''png'' = fmt"
    using assms(4) by (simp add: or_default_def)
  moreover have "or_default (Some prompt) ''Default image prompt'' =
      (if prompt = [] then ''Default image prompt'' else prompt)"
    by (simp add: or_default_def)
  ultimately show ?thesis
    using assms(1,2,3,5)
    by (simp add: generateImage_def generateImage_try_def image_outcome_def Let_def)
qed

text \<open>The payload says \<open>image/webp\<close>.  Without an \<open>outputFormat\<close>, and with the
  empty one, the image is returned as \<open>image/png\<close> and stored as \<open>.png\<close>; with
  \<open>jpeg\<close> it is returned as \<open>image/jpeg\<close> and stored as \<open>.jpeg\<close>.\<close>

theorem image_type_from_outputFormat_witness:
  "generateImage image_env ''a cat'' None None =
     (Inr (Image_saved, Content [ImageContent ''WQ=='' ''image/png'']),
      [GenerateContent ''a cat'',
       WriteFile ''gemini-image-1700000000000.png'' ''WQ=='']) \<and>
   generateImage image_env ''a cat'' None (Some []) =
     (Inr (Image_saved, Content [ImageContent ''WQ=='' ''image/png'']),
      [GenerateContent ''a cat'',
       WriteFile ''gemini-image-1700000000000.png'' ''WQ=='']) \<and>
   generateImage image_env ''a cat'' None (Some ''jpeg'') =
     (Inr (Image_saved, Content [ImageContent ''WQ=='' ''image/jpeg'']),
      [GenerateContent ''a cat'',
       WriteFile ''gemini-image-1700000000000.jpeg'' ''WQ==''])"
proof -
  have g: "generateContent image_env (if ''a cat'' = [] then ''Default image prompt'' else ''a cat'') =
      Inr \<lparr>candidates = Some [\<lparr>candidate_content = Some \<lparr>parts = Some four_parts\<rparr>\<rparr>]\<rparr>"
    by (simp add: image_env_def base_env_def)
  have r: "response_parts
      \<lparr>candidates = Some [\<lparr>candidate_content = Some \<lparr>parts = Some four_parts\<rparr>\<rparr>]\<rparr> =
      Inr four_parts"
    by (simp add: response_parts_def)
  have s: "fst (scan_parts four_parts (None, None)) =
      Some \<lparr>data = ''WQ=='', mimeType = ''image/webp''\<rparr>"
    by (simp add: four_parts_def truthy_def)
  have w: "writeFileSync image_env (''gemini-image-'' @ show_int (now image_env 0) @ ''.'' @ x)
           (fromBase64 image_env (data \<lparr>data = ''WQ=='', mimeType = ''image/webp''\<rparr>)) = None"
    for x
    by (simp add: image_env_def base_env_def)
  have n: "show_int (now image_env 0) = ''1700000000000''"
    by (simp add: image_env_def base_env_def show_int_def show_nat.simps)
  have f: "fromBase64 image_env ''WQ=='' = ''WQ==''"
    by (simp add: image_env_def base_env_def)
  have "''png'' = (case None :: string option of None \<Rightarrow> ''png''
                | Some f \<Rightarrow> if f = [] then ''png'' else f)"
    by simp
  from image_type_from_outputFormat [OF g r s this w, of None] n f
  have a: "generateImage image_env ''a cat'' None None =
     (Inr (Image_saved, Content [ImageContent ''WQ=='' ''image/png'']),
      [GenerateContent ''a cat'',
       WriteFile ''gemini-image-1700000000000.png'' ''WQ==''])"
    by simp
  have "''png'' = (case Some [] :: string option of None \<Rightarrow> ''png''
                | Some f \<Rightarrow> if f = [] then ''png'' else f)"
    by simp
  from image_type_from_outputFormat [OF g r s this w, of None] n f
  have b: "generateImage image_env ''a cat'' None (Some []) =
     (Inr (Image_saved, Content [ImageContent ''WQ=='' ''image/png'']),
      [GenerateContent ''a cat'',
       WriteFile ''gemini-image-1700000000000.png'' ''WQ==''])"
    by simp
  have "''jpeg'' = (case Some ''jpeg'' of None \<Rightarrow> ''png''
                | Some f \<Rightarrow> if f = [] then ''png'' else f)"
    by simp
  from image_type_from_outputFormat [OF g r s this w, of None] n f
  have c: "generateImage image_env ''a cat'' None (Some ''jpeg'') =
     (Inr (Image_saved, Content [ImageContent ''WQ=='' ''image/jpeg'']),
      [GenerateContent ''a cat'',
       WriteFile ''gemini-image-1700000000000.jpeg'' ''WQ==''])"
    by simp
  from a b c show ?thesis by simp
qed

end
